theory Spec2Isabelle
  imports Main
begin

section \<open>Values, errors and the world outside the store\<close>

text \<open>
  The stores of \<^verbatim>\<open>src/state.unit.ts\<close> and \<^verbatim>\<open>src/state-async.unit.ts\<close> keep values of
  type \<^verbatim>\<open>unknown\<close>. The store never computes with a value: it only moves it around,
  compares it with \<^verbatim>\<open>null\<close>/\<^verbatim>\<open>undefined\<close> (the \<^verbatim>\<open>??\<close> of \<^verbatim>\<open>get\<close>) and wraps two of them
  in the payload object of a change event. Numbers are therefore kept as opaque integers.
  Object and array literals (the event payload, the schema of \<^verbatim>\<open>teach\<close>) are plain data:
  a \<open>JObj\<close> is an ordinary object with the listed own data properties, all writable, and
  the prototype of an object literal. \<open>JNative\<close> is a built-in object of the runtime, named
  by its path (\<^verbatim>\<open>Object.prototype\<close>, \<^verbatim>\<open>Object.prototype.toString\<close>, \<^verbatim>\<open>Object\<close>): a read of
  a member that the memory object inherits yields one.
\<close>

datatype jsval =
    JUndefined
  | JNull
  | JBool bool
  | JNum int
  | JStr string
  | JArr "jsval list"
  | JObj "(string \<times> jsval) list"
  | JNative string

text \<open>A thrown \<^verbatim>\<open>Error(message)\<close>, and a \<^verbatim>\<open>TypeError\<close> thrown by the runtime.\<close>

datatype error = Error string | TypeError string

text \<open>
  Everything outside the store object: the lines the store writes with
  \<^verbatim>\<open>console.warn\<close> (message and the error logged with it), and the state \<open>ext\<close> of the
  collaborators (the storage backend, whatever the subscribers' handlers write to).
\<close>

record 'x World =
  console :: "(string \<times> error) list"
  ext :: 'x

text \<open>
  \<^verbatim>\<open>type EventHandler = (data: unknown) => void\<close>. A handler is a callback of the
  subscriber: it reads the payload and acts on the world. Handlers are taken to return
  normally and not to call back into the store that is notifying them.
\<close>

type_synonym 'x EventHandler = "jsval \<Rightarrow> 'x World \<Rightarrow> 'x World"

text \<open>
  \<^verbatim>\<open>interface StorageBinding\<close>. Each operation is asynchronous and may reject: it
  returns the error (\<open>Inl\<close>) or its result (\<open>Inr\<close>), and the world it leaves behind in
  both cases. \<^verbatim>\<open>exists\<close> and \<^verbatim>\<open>clear\<close> are optional members. The fields are prefixed
  with \<open>storage_\<close> since \<open>set\<close> is the set of a list in HOL. A binding call is taken to
  settle (resolve or reject).
\<close>

record 'x StorageBinding =
  storage_get :: "string \<Rightarrow> 'x World \<Rightarrow> (error + jsval) \<times> 'x World"
  storage_set :: "string \<Rightarrow> jsval \<Rightarrow> int option \<Rightarrow> 'x World \<Rightarrow> (error + unit) \<times> 'x World"
  storage_delete :: "string \<Rightarrow> 'x World \<Rightarrow> (error + bool) \<times> 'x World"
  storage_exists :: "(string \<Rightarrow> 'x World \<Rightarrow> (error + bool) \<times> 'x World) option"
  storage_clear :: "('x World \<Rightarrow> (error + unit) \<times> 'x World) option"

section \<open>Ordinary objects\<close>

text \<open>
  \<^verbatim>\<open>currentState\<close> is a \<^verbatim>\<open>Record<string, unknown>\<close> made by an object literal
  (\<^verbatim>\<open>{ ...config.initialState }\<close>): an ordinary object, with its own properties and a
  prototype link, which is \<^verbatim>\<open>Object.prototype\<close> at first. The three operations the stores
  use on it, \<^verbatim>\<open>obj[key]\<close>, \<^verbatim>\<open>key in obj\<close> and \<^verbatim>\<open>obj[key] = value\<close>, look a key up among the
  own properties and then along the prototype chain, so a key such as \<^verbatim>\<open>toString\<close> is
  found in an empty object, and \<^verbatim>\<open>__proto__\<close> is an accessor whose setter replaces the
  prototype link instead of storing a property. An own key may be present with the value
  \<^verbatim>\<open>undefined\<close>.
\<close>

record JsObject =
  proto :: jsval
  own :: "string \<rightharpoonup> jsval"

definition Object_prototype :: jsval where
  "Object_prototype = JNative ''Object.prototype''"

text \<open>The names of the members of \<^verbatim>\<open>Object.prototype\<close> (ECMAScript, with Annex B).\<close>

definition Object_prototype_keys :: "string list" where
  "Object_prototype_keys =
     [''constructor'', ''__defineGetter__'', ''__defineSetter__'', ''hasOwnProperty'',
      ''__lookupGetter__'', ''__lookupSetter__'', ''isPrototypeOf'', ''propertyIsEnumerable'',
      ''toString'', ''valueOf'', ''__proto__'', ''toLocaleString'']"

text \<open>
  What a key resolves to: a data property with its value, or the accessor
  \<^verbatim>\<open>__proto__\<close> of \<^verbatim>\<open>Object.prototype\<close>.
\<close>

datatype property = Data jsval | Proto_accessor

definition Object_prototype_member :: "string \<Rightarrow> property option" where
  "Object_prototype_member key =
     (if key = ''__proto__'' then Some Proto_accessor
      else if key = ''constructor'' then Some (Data (JNative ''Object''))
      else if key \<in> set Object_prototype_keys
        then Some (Data (JNative (''Object.prototype.'' @ key)))
      else None)"

text \<open>
  The property a key resolves to along the chain that starts at the prototype link \<open>p\<close>.
  A link is \<^verbatim>\<open>null\<close> (nothing is inherited), \<^verbatim>\<open>Object.prototype\<close>, or an object that was
  assigned to \<^verbatim>\<open>__proto__\<close>. For a plain object the chain is its own properties and then
  \<^verbatim>\<open>Object.prototype\<close>. The further members of arrays and of built-in functions are not
  tabulated: through such a link the model inherits the members of \<^verbatim>\<open>Object.prototype\<close>
  only, and the theorems on the keys of the memory assume the link it is created with.
\<close>

fun inherited :: "jsval \<Rightarrow> string \<Rightarrow> property option" where
  "inherited JNull key = None"
| "inherited (JObj props) key =
     (case map_of props key of Some v \<Rightarrow> Some (Data v) | None \<Rightarrow> Object_prototype_member key)"
| "inherited p key = Object_prototype_member key"

definition find_property :: "JsObject \<Rightarrow> string \<Rightarrow> property option" where
  "find_property obj key =
     (case own obj key of Some v \<Rightarrow> Some (Data v) | None \<Rightarrow> inherited (proto obj) key)"

text \<open>
  \<^verbatim>\<open>obj[key]\<close>: the value of the property, \<^verbatim>\<open>undefined\<close> when there is none; the getter of
  \<^verbatim>\<open>__proto__\<close> returns the prototype link of \<open>obj\<close>.
\<close>

definition read_key :: "JsObject \<Rightarrow> string \<Rightarrow> jsval" where
  "read_key obj key =
     (case find_property obj key of
        None \<Rightarrow> JUndefined
      | Some (Data v) \<Rightarrow> v
      | Some Proto_accessor \<Rightarrow> proto obj)"

text \<open>\<^verbatim>\<open>key in obj\<close>: an own or an inherited property.\<close>

definition key_in :: "string \<Rightarrow> JsObject \<Rightarrow> bool" where
  "key_in key obj = (case find_property obj key of None \<Rightarrow> False | Some _ \<Rightarrow> True)"

definition is_object :: "jsval \<Rightarrow> bool" where
  "is_object v = (case v of JObj _ \<Rightarrow> True | JArr _ \<Rightarrow> True | JNative _ \<Rightarrow> True | _ \<Rightarrow> False)"

text \<open>
  \<^verbatim>\<open>obj[key] = value\<close>. An own property is overwritten. Otherwise, when the key resolves
  to the accessor \<^verbatim>\<open>__proto__\<close>, its setter runs: an object or \<^verbatim>\<open>null\<close> becomes the
  prototype link, any other value is dropped; nothing is stored. In every other case
  (no property, or an inherited data property, which is writable) an own property is
  created.
\<close>

definition assign_key :: "JsObject \<Rightarrow> string \<Rightarrow> jsval \<Rightarrow> JsObject" where
  "assign_key obj key val =
     (case own obj key of
        Some _ \<Rightarrow> obj\<lparr>own := (own obj)(key \<mapsto> val)\<rparr>
      | None \<Rightarrow>
          (case inherited (proto obj) key of
             Some Proto_accessor \<Rightarrow>
               (if is_object val \<or> val = JNull then obj\<lparr>proto := val\<rparr> else obj)
           | _ \<Rightarrow> obj\<lparr>own := (own obj)(key \<mapsto> val)\<rparr>))"

text \<open>\<^verbatim>\<open>delete obj[key]\<close> removes an own property and leaves the chain alone.\<close>

definition delete_key :: "JsObject \<Rightarrow> string \<Rightarrow> JsObject" where
  "delete_key obj key = obj\<lparr>own := (own obj)(key := None)\<rparr>"

text \<open>
  An object literal with the given own properties, \<^verbatim>\<open>{ ...source }\<close>: the spread defines
  each of them as an own property of the new object, \<^verbatim>\<open>__proto__\<close> included.
\<close>

definition object_literal :: "(string \<rightharpoonup> jsval) \<Rightarrow> JsObject" where
  "object_literal properties = \<lparr>proto = Object_prototype, own = properties\<rparr>"

section \<open>Configuration and properties\<close>

text \<open>
  Modelled from the spec: \<^verbatim>\<open>createUnitSchema\<close> and \<^verbatim>\<open>UnitProps\<close> belong to the host
  framework \<^verbatim>\<open>@synet/unit\<close>, which "supplies object identity/versioning metadata"; the
  schema is the pair of the id and the version it is given.
\<close>

record UnitSchema =
  id :: string
  version :: string

definition createUnitSchema :: "string \<Rightarrow> string \<Rightarrow> UnitSchema" where
  "createUnitSchema i v = \<lparr>id = i, version = v\<rparr>"

text \<open>\<^verbatim>\<open>interface StateConfig\<close> of the synchronous store.\<close>

record StateConfig =
  unitId :: string
  initialState :: "string \<rightharpoonup> jsval"

text \<open>
  \<^verbatim>\<open>interface StateAsyncConfig\<close>; an optional member that is left out is \<open>None\<close>.
\<close>

record 'x StateAsyncConfig =
  unitId :: string
  initialState :: "(string \<rightharpoonup> jsval) option"
  emitEvents :: "bool option"
  storage :: "'x StorageBinding option"

text \<open>\<^verbatim>\<open>interface StateProps extends UnitProps\<close>.\<close>

record 'x StateProps =
  dna :: UnitSchema
  ownerId :: string
  currentState :: JsObject
  eventHandlers :: "string \<rightharpoonup> 'x EventHandler list"

text \<open>
  \<^verbatim>\<open>interface StateAsyncProps extends UnitProps\<close> has the four members of
  \<^verbatim>\<open>StateProps\<close> and two more.
\<close>

record 'x StateAsyncProps = "'x StateProps" +
  emitEvents :: bool
  storage :: "'x StorageBinding option"

text \<open>\<^verbatim>\<open>value ?? undefined\<close>: \<^verbatim>\<open>null\<close> and \<^verbatim>\<open>undefined\<close> give the right operand.\<close>

definition nullish_undefined :: "jsval \<Rightarrow> jsval" where
  "nullish_undefined v = (case v of JNull \<Rightarrow> JUndefined | JUndefined \<Rightarrow> JUndefined | _ \<Rightarrow> v)"

text \<open>
  Modelled from the spec: the base class \<^verbatim>\<open>Unit\<close> of the host framework \<^verbatim>\<open>@synet/unit\<close>
  is not part of the repository. It keeps \<^verbatim>\<open>props\<close> immutable ("Immutable props with
  mutable state container", "Props: Immutable configuration and unit identity"): the
  object \<^verbatim>\<open>this.props\<close> is frozen, so an assignment to one of its members throws a
  \<^verbatim>\<open>TypeError\<close> (module code is strict), while the objects its members refer to, the
  memory object and the map of handlers, stay mutable.
\<close>

definition assign_props_member :: "string \<Rightarrow> error" where
  "assign_props_member member =
     TypeError (''Cannot assign to read only property '' @ [CHR 39] @ member @ [CHR 39]
                @ '' of object '' @ [CHR 39] @ ''#<Object>'' @ [CHR 39])"

text \<open>\<^verbatim>\<open>console.warn(message, error)\<close>.\<close>

definition console_warn :: "string \<Rightarrow> error \<Rightarrow> 'x World \<Rightarrow> 'x World" where
  "console_warn msg err w = w\<lparr>console := console w @ [(msg, err)]\<rparr>"

section \<open>The event system (both stores)\<close>

text \<open>
  \<^verbatim>\<open>on(event, handler)\<close>: the handler is pushed at the end of the event's array, which
  is created when the event has none.
\<close>

definition on_event ::
  "string \<Rightarrow> 'x EventHandler \<Rightarrow> ('x, 'm) StateProps_scheme \<Rightarrow> ('x, 'm) StateProps_scheme" where
  "on_event event handler this =
     (let handlers = (case eventHandlers this event of None \<Rightarrow> [] | Some hs \<Rightarrow> hs)
      in this\<lparr>eventHandlers := (eventHandlers this)(event \<mapsto> handlers @ [handler])\<rparr>)"

text \<open>The loop \<^verbatim>\<open>for (const handler of handlers) handler(data)\<close>.\<close>

fun call_handlers :: "'x EventHandler list \<Rightarrow> jsval \<Rightarrow> 'x World \<Rightarrow> 'x World" where
  "call_handlers [] data w = w"
| "call_handlers (handler # handlers) data w = call_handlers handlers data (handler data w)"

text \<open>\<^verbatim>\<open>emit(event, data)\<close>, with \<^verbatim>\<open>this.props.eventHandlers.get(event) || []\<close>.\<close>

definition emit :: "string \<Rightarrow> jsval \<Rightarrow> ('x, 'm) StateProps_scheme \<Rightarrow> 'x World \<Rightarrow> 'x World" where
  "emit event data this w =
     call_handlers (case eventHandlers this event of None \<Rightarrow> [] | Some hs \<Rightarrow> hs) data w"

text \<open>The payload \<^verbatim>\<open>{ oldValue, newValue: value }\<close> and the name \<^verbatim>\<open>`${key}.changed`\<close>.\<close>

definition change_payload :: "jsval \<Rightarrow> jsval \<Rightarrow> jsval" where
  "change_payload oldValue newValue = JObj [(''oldValue'', oldValue), (''newValue'', newValue)]"

definition changed_event :: "string \<Rightarrow> string" where
  "changed_event key = key @ ''.changed''"

section \<open>The synchronous store: \<^verbatim>\<open>class State\<close>\<close>

definition State_create :: "StateConfig \<Rightarrow> 'x StateProps" where
  "State_create config =
     \<lparr>dna = createUnitSchema (''state-'' @ StateConfig.unitId config) ''1.0.0'',
      ownerId = StateConfig.unitId config,
      currentState = object_literal (StateConfig.initialState config),
      eventHandlers = Map.empty\<rparr>"





section \<open>The asynchronous store: \<^verbatim>\<open>class StateAsync\<close>\<close>

text \<open>
  \<^verbatim>\<open>StateAsync.create\<close>: \<^verbatim>\<open>{ ...config.initialState || {} }\<close> and
  \<^verbatim>\<open>config.emitEvents ?? false\<close>.
\<close>

definition StateAsync_create :: "'x StateAsyncConfig \<Rightarrow> 'x StateAsyncProps" where
  "StateAsync_create config =
     \<lparr>dna = createUnitSchema (''state-'' @ StateAsyncConfig.unitId config) ''1.0.0'',
      ownerId = StateAsyncConfig.unitId config,
      currentState =
        object_literal
          (case StateAsyncConfig.initialState config of None \<Rightarrow> Map.empty | Some m \<Rightarrow> m),
      eventHandlers = Map.empty,
      emitEvents = (case StateAsyncConfig.emitEvents config of None \<Rightarrow> False | Some b \<Rightarrow> b),
      storage = StateAsyncConfig.storage config\<rparr>"

text \<open>
  The asynchronous operations return a promise: \<open>Inr\<close> when it resolves, with the value,
  the store and the world afterwards, \<open>Inl\<close> when it rejects, with the error and the
  store and the world it leaves behind. A \<^verbatim>\<open>try\<close> block around a binding call is the
  case distinction on the call's result.
\<close>

type_synonym 'x rejection = "error \<times> 'x StateAsyncProps \<times> 'x World"

definition warn_message :: "UnitSchema \<Rightarrow> string \<Rightarrow> string \<Rightarrow> string" where
  "warn_message d what key = ''['' @ id d @ ''] Storage '' @ what @ '' failed for key '' @ [CHR 39] @ key @ [CHR 39] @ '':''"

definition StateAsync_get ::
  "string \<Rightarrow> 'x StateAsyncProps \<Rightarrow> 'x World
     \<Rightarrow> 'x rejection + (jsval \<times> 'x StateAsyncProps \<times> 'x World)" where
  "StateAsync_get key this w =
     (case storage this of
        Some sb \<Rightarrow>
          (case storage_get sb key w of
             (Inr val, w1) \<Rightarrow> Inr (nullish_undefined val, this, w1)
           | (Inl err, w1) \<Rightarrow>
               Inr (read_key (currentState this) key, this,
                    console_warn (warn_message (dna this) ''get'' key) err w1))
      | None \<Rightarrow> Inr (read_key (currentState this) key, this, w))"

definition StateAsync_set ::
  "string \<Rightarrow> jsval \<Rightarrow> int option \<Rightarrow> 'x StateAsyncProps \<Rightarrow> 'x World
     \<Rightarrow> 'x rejection + ('x StateAsyncProps \<times> 'x World)" where
  "StateAsync_set key val ttl this w =
     (let oldValue = read_key (currentState this) key;
          (this1, w1) =
            (case storage this of
               Some sb \<Rightarrow>
                 (case storage_set sb key val ttl w of
                    (Inr _, w') \<Rightarrow> (this, w')
                  | (Inl err, w') \<Rightarrow>
                      (this\<lparr>currentState := assign_key (currentState this) key val\<rparr>,
                       console_warn (warn_message (dna this) ''set'' key) err w'))
             | None \<Rightarrow> (this\<lparr>currentState := assign_key (currentState this) key val\<rparr>, w))
      in if emitEvents this1
         then Inr (this1, emit (changed_event key) (change_payload oldValue val) this1 w1)
         else Inr (this1, w1))"

definition StateAsync_has ::
  "string \<Rightarrow> 'x StateAsyncProps \<Rightarrow> 'x World
     \<Rightarrow> 'x rejection + (bool \<times> 'x StateAsyncProps \<times> 'x World)" where
  "StateAsync_has key this w =
     (case (case storage this of None \<Rightarrow> None | Some sb \<Rightarrow> storage_exists sb) of
        Some exists_fn \<Rightarrow>
          (case exists_fn key w of
             (Inr b, w1) \<Rightarrow> Inr (b, this, w1)
           | (Inl err, w1) \<Rightarrow>
               Inr (key_in key (currentState this), this,
                    console_warn (warn_message (dna this) ''exists'' key) err w1))
      | None \<Rightarrow> Inr (key_in key (currentState this), this, w))"

definition StateAsync_delete ::
  "string \<Rightarrow> 'x StateAsyncProps \<Rightarrow> 'x World
     \<Rightarrow> 'x rejection + (bool \<times> 'x StateAsyncProps \<times> 'x World)" where
  "StateAsync_delete key this w =
     (let (storageDeleted, w1) =
            (case storage this of
               Some sb \<Rightarrow>
                 (case storage_delete sb key w of
                    (Inr b, w') \<Rightarrow> (b, w')
                  | (Inl err, w') \<Rightarrow>
                      (False, console_warn (warn_message (dna this) ''delete'' key) err w'))
             | None \<Rightarrow> (False, w));
          existed = key_in key (currentState this);
          this1 = this\<lparr>currentState := delete_key (currentState this) key\<rparr>
      in Inr (storageDeleted \<or> existed, this1, w1))"

text \<open>
  \<^verbatim>\<open>clear\<close>: after the attempt on the binding, \<^verbatim>\<open>this.props.currentState = {}\<close> assigns
  a member of the frozen \<^verbatim>\<open>props\<close>: the assignment throws, outside any \<^verbatim>\<open>try\<close>, and the
  promise rejects with the memory as it was.
\<close>

definition StateAsync_clear ::
  "'x StateAsyncProps \<Rightarrow> 'x World \<Rightarrow> 'x rejection + ('x StateAsyncProps \<times> 'x World)" where
  "StateAsync_clear this w =
     (let w1 =
            (case (case storage this of None \<Rightarrow> None | Some sb \<Rightarrow> storage_clear sb) of
               Some clear_fn \<Rightarrow>
                 (case clear_fn w of
                    (Inr _, w') \<Rightarrow> w'
                  | (Inl err, w') \<Rightarrow>
                      console_warn (''['' @ id (dna this) @ ''] Storage clear failed:'') err w')
             | None \<Rightarrow> w)
      in Inl (assign_props_member ''currentState'', this, w1))"

text \<open>\<^verbatim>\<open>getAll\<close> returns \<^verbatim>\<open>{ ...this.props.currentState }\<close>.\<close>

definition StateAsync_getAll :: "'x StateAsyncProps \<Rightarrow> JsObject" where
  "StateAsync_getAll this = object_literal (own (currentState this))"

section \<open>Teaching: the exported capabilities\<close>

text \<open>
  A capability is a closure over \<^verbatim>\<open>this\<close>, such as
  \<^verbatim>\<open>(...args) => this.get(args[0] as string)\<close>. The store it is bound to is mutable, so
  the closure is a function of the store (and the world) at the time of the call. The
  casts \<^verbatim>\<open>args[0] as string\<close> and \<^verbatim>\<open>args[1] as EventHandler\<close> are the types of the
  parameters. There is one constructor for each shape of closure.
\<close>

datatype ('s, 'x) capability =
    Cap_get "string \<Rightarrow> 's \<Rightarrow> 'x World \<Rightarrow> (error \<times> 's \<times> 'x World) + (jsval \<times> 's \<times> 'x World)"
  | Cap_has "string \<Rightarrow> 's \<Rightarrow> 'x World \<Rightarrow> (error \<times> 's \<times> 'x World) + (bool \<times> 's \<times> 'x World)"
  | Cap_getAll "'s \<Rightarrow> JsObject"
  | Cap_on "string \<Rightarrow> 'x EventHandler \<Rightarrow> 's \<Rightarrow> 's"

text \<open>
  \<^verbatim>\<open>TeachingContract\<close>: the capabilities are an object literal, kept as the list of its
  keys with their closures, in the order they are written.
\<close>

record ('s, 'x) TeachingContract =
  unitId :: string
  capabilities :: "(string \<times> ('s, 'x) capability) list"
  schema :: "jsval option"







section \<open>Sequences of calls\<close>

text \<open>
  The owner of a store calls its operations one after the other, awaiting each. A call
  that rejects ends the sequence with its rejection.
\<close>

datatype 'x call =
    Get string
  | Set string jsval "int option"
  | Has string
  | Delete string
  | Clear
  | On string "'x EventHandler"
  | Emit string jsval

fun perform ::
  "'x call \<Rightarrow> 'x StateAsyncProps \<Rightarrow> 'x World
     \<Rightarrow> 'x rejection + ('x StateAsyncProps \<times> 'x World)" where
  "perform (Get key) this w =
     (case StateAsync_get key this w of Inl e \<Rightarrow> Inl e | Inr (_, this', w') \<Rightarrow> Inr (this', w'))"
| "perform (Set key val ttl) this w = StateAsync_set key val ttl this w"
| "perform (Has key) this w =
     (case StateAsync_has key this w of Inl e \<Rightarrow> Inl e | Inr (_, this', w') \<Rightarrow> Inr (this', w'))"
| "perform (Delete key) this w =
     (case StateAsync_delete key this w of Inl e \<Rightarrow> Inl e | Inr (_, this', w') \<Rightarrow> Inr (this', w'))"
| "perform Clear this w = StateAsync_clear this w"
| "perform (On event handler) this w = Inr (on_event event handler this, w)"
| "perform (Emit event data) this w = Inr (this, emit event data this w)"

fun perform_all ::
  "'x call list \<Rightarrow> 'x StateAsyncProps \<Rightarrow> 'x World
     \<Rightarrow> 'x rejection + ('x StateAsyncProps \<times> 'x World)" where
  "perform_all [] this w = Inr (this, w)"
| "perform_all (c # cs) this w =
     (case perform c this w of Inl e \<Rightarrow> Inl e | Inr (this', w') \<Rightarrow> perform_all cs this' w')"

section \<open>Example collaborators\<close>

text \<open>
  The world of the examples: the contents of a storage backend and the payloads a
  recording subscriber has received, in order.
\<close>

record Ext =
  backing :: "string \<rightharpoonup> jsval"
  received :: "jsval list"

definition world0 :: "Ext World" where
  "world0 = \<lparr>console = [], ext = \<lparr>backing = Map.empty, received = []\<rparr>\<rparr>"

text \<open>A subscriber that records each payload it is called with.\<close>

definition recorder :: "Ext EventHandler" where
  "recorder data w = w\<lparr>ext := (ext w)\<lparr>received := received (ext w) @ [data]\<rparr>\<rparr>"

text \<open>
  A working backend with all five operations: a map, \<^verbatim>\<open>null\<close> for a key it does not
  hold.
\<close>

definition map_storage :: "Ext StorageBinding" where
  "map_storage =
     \<lparr>storage_get = (\<lambda>key w.
        (Inr (case backing (ext w) key of None \<Rightarrow> JNull | Some v \<Rightarrow> v), w)),
      storage_set = (\<lambda>key val ttl w.
        (Inr (), w\<lparr>ext := (ext w)\<lparr>backing := (backing (ext w))(key \<mapsto> val)\<rparr>\<rparr>)),
      storage_delete = (\<lambda>key w.
        (Inr (backing (ext w) key \<noteq> None),
         w\<lparr>ext := (ext w)\<lparr>backing := (backing (ext w))(key := None)\<rparr>\<rparr>)),
      storage_exists = Some (\<lambda>key w. (Inr (backing (ext w) key \<noteq> None), w)),
      storage_clear = Some (\<lambda>w. (Inr (), w\<lparr>ext := (ext w)\<lparr>backing := Map.empty\<rparr>\<rparr>))\<rparr>"

text \<open>The same backend with a \<^verbatim>\<open>get\<close> that always throws.\<close>

definition get_fails_storage :: "Ext StorageBinding" where
  "get_fails_storage =
     map_storage\<lparr>storage_get := (\<lambda>key w. (Inl (Error ''Storage temporarily unavailable''), w))\<rparr>"

text \<open>A backend all of whose operations throw.\<close>

definition failing_storage :: "Ext StorageBinding" where
  "failing_storage =
     \<lparr>storage_get = (\<lambda>key w. (Inl (Error ''Storage temporarily unavailable''), w)),
      storage_set = (\<lambda>key val ttl w. (Inl (Error ''Storage write failed''), w)),
      storage_delete = (\<lambda>key w. (Inl (Error ''Storage delete always fails''), w)),
      storage_exists = Some (\<lambda>key w. (Inl (Error ''Storage exists always fails''), w)),
      storage_clear = Some (\<lambda>w. (Inl (Error ''Storage clear always fails''), w))\<rparr>"

text \<open>A backend without the optional operations \<^verbatim>\<open>exists\<close> and \<^verbatim>\<open>clear\<close>.\<close>

definition minimal_storage :: "Ext StorageBinding" where
  "minimal_storage = map_storage\<lparr>storage_exists := None, storage_clear := None\<rparr>"

definition example_config ::
  "(string \<rightharpoonup> jsval) option \<Rightarrow> Ext StorageBinding option \<Rightarrow> bool option \<Rightarrow> Ext StateAsyncConfig" where
  "example_config init sb ev =
     \<lparr>StateAsyncConfig.unitId = ''example'', StateAsyncConfig.initialState = init,
      StateAsyncConfig.emitEvents = ev, StateAsyncConfig.storage = sb\<rparr>"

text \<open>A store on the working backend, one on the backend whose \<^verbatim>\<open>get\<close> throws, and so on.\<close>

definition stored_store :: "Ext StateAsyncProps" where
  "stored_store = StateAsync_create (example_config None (Some map_storage) None)"

definition unreadable_store :: "Ext StateAsyncProps" where
  "unreadable_store = StateAsync_create (example_config None (Some get_fails_storage) None)"

definition degraded_store :: "Ext StateAsyncProps" where
  "degraded_store =
     StateAsync_create (example_config (Some [''k'' \<mapsto> JNum 0]) (Some failing_storage) None)"

definition minimal_store :: "Ext StateAsyncProps" where
  "minimal_store =
     StateAsync_create (example_config (Some [''k'' \<mapsto> JNum 0]) (Some minimal_storage) None)"

definition memory_store :: "Ext StateAsyncProps" where
  "memory_store = StateAsync_create (example_config (Some [''k'' \<mapsto> JNull]) None None)"

definition empty_store :: "Ext StateAsyncProps" where
  "empty_store = StateAsync_create (example_config None None None)"

definition observed_store :: "Ext StateAsyncProps" where
  "observed_store =
     on_event ''k.changed'' recorder
       (StateAsync_create (example_config None (Some map_storage) (Some True)))"

lemmas example_defs =
  stored_store_def unreadable_store_def degraded_store_def minimal_store_def memory_store_def
  empty_store_def observed_store_def example_config_def StateAsync_create_def createUnitSchema_def
  object_literal_def
  map_storage_def get_fails_storage_def failing_storage_def minimal_storage_def
  world0_def recorder_def

section \<open>Keys of an ordinary object\<close>

text \<open>Only the key \<^verbatim>\<open>__proto__\<close> resolves to the accessor.\<close>

lemma member_accessor: "Object_prototype_member key = Some Proto_accessor \<Longrightarrow> key = ''__proto__''"
  by (simp add: Object_prototype_member_def split: if_splits)

lemma inherited_accessor: "inherited p key = Some Proto_accessor \<Longrightarrow> key = ''__proto__''"
  by (cases "(p, key)" rule: inherited.cases)
     (auto dest: member_accessor split: option.splits)


text \<open>
  An assignment to any key but \<^verbatim>\<open>__proto__\<close>, or to an own key, stores an own property
  and changes nothing else; the value is read back.
\<close>

lemma assign_key_stores:
  assumes "key \<noteq> ''__proto__'' \<or> own obj key \<noteq> None"
  shows "assign_key obj key val = obj\<lparr>own := (own obj)(key \<mapsto> val)\<rparr>"
proof (cases "own obj key")
  case (Some old)
  then show ?thesis by (simp add: assign_key_def)
next
  case None
  with assms have "key \<noteq> ''__proto__''" by simp
  then have "inherited (proto obj) key \<noteq> Some Proto_accessor"
    using inherited_accessor by blast
  with None show ?thesis
    by (simp add: assign_key_def split: option.splits property.splits)
qed

lemma read_key_own: "own obj key = Some val \<Longrightarrow> read_key obj key = val"
  by (simp add: read_key_def find_property_def)

lemma key_in_own: "own obj key = Some val \<Longrightarrow> key_in key obj"
  by (simp add: key_in_def find_property_def)




section \<open>The operations, case by case\<close>

text \<open>\<^verbatim>\<open>get\<close>: no binding, a binding that answers, a binding that throws.\<close>

lemma get_unbound:
  "storage this = None \<Longrightarrow> StateAsync_get k this w = Inr (read_key (currentState this) k, this, w)"
  by (simp add: StateAsync_get_def)

lemma get_resolved:
  "storage this = Some sb \<Longrightarrow> storage_get sb k w = (Inr r, w1) \<Longrightarrow>
   StateAsync_get k this w = Inr (nullish_undefined r, this, w1)"
  by (simp add: StateAsync_get_def)

lemma get_rejected:
  "storage this = Some sb \<Longrightarrow> storage_get sb k w = (Inl e, w1) \<Longrightarrow>
   StateAsync_get k this w =
     Inr (read_key (currentState this) k, this, console_warn (warn_message (dna this) ''get'' k) e w1)"
  by (simp add: StateAsync_get_def)

lemma get_keeps_store:
  "StateAsync_get k this w = Inr (r, this', w') \<Longrightarrow> this' = this"
  by (auto simp add: StateAsync_get_def split: option.splits sum.splits prod.splits)

lemma get_total: "\<exists>r. StateAsync_get k this w = Inr r"
  by (simp add: StateAsync_get_def split: option.splits sum.splits prod.splits)




lemma set_total: "\<exists>r. StateAsync_set k v ttl this w = Inr r"
  by (simp add: StateAsync_set_def Let_def split: option.splits sum.splits prod.splits)

text \<open>\<^verbatim>\<open>has\<close>: no binding, a binding without \<^verbatim>\<open>exists\<close>, an \<^verbatim>\<open>exists\<close> that throws.\<close>

lemma has_unbound:
  "storage this = None \<Longrightarrow> StateAsync_has k this w = Inr (key_in k (currentState this), this, w)"
  by (simp add: StateAsync_has_def)

lemma has_no_exists:
  "storage this = Some sb \<Longrightarrow> storage_exists sb = None \<Longrightarrow>
   StateAsync_has k this w = Inr (key_in k (currentState this), this, w)"
  by (simp add: StateAsync_has_def)

lemma has_rejected:
  "storage this = Some sb \<Longrightarrow> storage_exists sb = Some f \<Longrightarrow> f k w = (Inl e, w1) \<Longrightarrow>
   StateAsync_has k this w =
     Inr (key_in k (currentState this), this, console_warn (warn_message (dna this) ''exists'' k) e w1)"
  by (simp add: StateAsync_has_def)

lemma has_total: "\<exists>r. StateAsync_has k this w = Inr r"
  by (simp add: StateAsync_has_def split: option.splits sum.splits prod.splits)




lemma delete_total: "\<exists>r. StateAsync_delete k this w = Inr r"
  by (simp add: StateAsync_delete_def Let_def split: option.splits sum.splits prod.splits)

text \<open>
  \<^verbatim>\<open>clear\<close> rejects on every store, with the memory it had; without a binding the world
  is untouched as well.
\<close>

lemma clear_rejects:
  "\<exists>w1. StateAsync_clear this w = Inl (assign_props_member ''currentState'', this, w1)"
  by (simp add: StateAsync_clear_def Let_def)

lemma clear_unbound:
  "storage this = None \<Longrightarrow>
   StateAsync_clear this w = Inl (assign_props_member ''currentState'', this, w)"
  by (simp add: StateAsync_clear_def)

text \<open>A call whose result is an \<open>Inl\<close> has thrown.\<close>

lemma thrown: "isl (fst p) \<Longrightarrow> \<exists>e w1. p = (Inl e, w1)"
  by (cases p, cases "fst p") auto

section \<open>Writes\<close>

text \<open>
  Claim C1 (memory-mirror freshness): on a store with a storage binding, after a
  \<^verbatim>\<open>set(k, v)\<close> whose delegated write succeeds the in-memory mapping holds \<open>v\<close> for
  \<open>k\<close>, and a failure of the binding's \<^verbatim>\<open>get\<close> never modifies the in-memory mapping.

  The second half holds (\<open>get_keeps_store\<close>: \<^verbatim>\<open>get\<close> never changes the store). The
  first does not: the \<^verbatim>\<open>try\<close> branch of \<^verbatim>\<open>set\<close> only awaits \<^verbatim>\<open>storage.set\<close>, and the
  assignment \<^verbatim>\<open>currentState[key] = value\<close> is in the \<^verbatim>\<open>catch\<close> and \<^verbatim>\<open>else\<close> branches
  alone (\<open>set_resolved\<close>). On a fresh store over a working backend, \<^verbatim>\<open>set("x", 1)\<close>
  resolves, the backend holds \<open>1\<close> for \<open>x\<close>, and the store is what it was: \<open>x\<close> is not a
  key of its memory.
\<close>

theorem C1_stored_write_leaves_memory_stale:
  "StateAsync_set ''x'' (JNum 1) None stored_store world0
     = Inr (stored_store, \<lparr>console = [], ext = \<lparr>backing = [''x'' \<mapsto> JNum 1], received = []\<rparr>\<rparr>)
   \<and> own (currentState stored_store) ''x'' = None
   \<and> own (StateAsync_getAll stored_store) ''x'' = None
   \<and> read_key (currentState stored_store) ''x'' = JUndefined"
  by (simp add: StateAsync_set_def StateAsync_getAll_def example_defs read_key_def
      find_property_def Object_prototype_def Object_prototype_member_def Object_prototype_keys_def)

text \<open>
  Claim C2: on a store whose binding always throws on \<^verbatim>\<open>get\<close> for \<^verbatim>\<open>"x"\<close> but succeeds
  on \<^verbatim>\<open>set\<close>, \<^verbatim>\<open>set("x", 1)\<close> resolves and a subsequent \<^verbatim>\<open>get("x")\<close> falls back to
  memory and resolves to \<open>1\<close>.

  Both calls resolve and the \<^verbatim>\<open>get\<close> does fall back to memory, with one warning logged;
  but the memory was not written by the successful \<^verbatim>\<open>set\<close>, so the value is
  \<^verbatim>\<open>undefined\<close>, not \<open>1\<close>.
\<close>

theorem C2_get_after_stored_set_is_undefined:
  "StateAsync_set ''x'' (JNum 1) None unreadable_store world0
     = Inr (unreadable_store,
            \<lparr>console = [], ext = \<lparr>backing = [''x'' \<mapsto> JNum 1], received = []\<rparr>\<rparr>)
   \<and> StateAsync_get ''x'' unreadable_store
        \<lparr>console = [], ext = \<lparr>backing = [''x'' \<mapsto> JNum 1], received = []\<rparr>\<rparr>
     = Inr (JUndefined, unreadable_store,
            \<lparr>console = [(''[state-example] Storage get failed for key '' @ [CHR 39] @ ''x'' @ [CHR 39] @ '':'',
                          Error ''Storage temporarily unavailable'')],
             ext = \<lparr>backing = [''x'' \<mapsto> JNum 1], received = []\<rparr>\<rparr>)"
  by (simp add: StateAsync_set_def StateAsync_get_def example_defs console_warn_def read_key_def
      warn_message_def find_property_def Object_prototype_def Object_prototype_member_def
      Object_prototype_keys_def)


lemma set_keeps_proto:
  assumes "k \<noteq> ''__proto__''" and "StateAsync_set k v ttl this w = Inr (this', w')"
  shows "proto (currentState this') = proto (currentState this)"
proof -
  have "proto (assign_key (currentState this) k v) = proto (currentState this)"
    using assms(1) by (simp add: assign_key_stores)
  with assms(2) show ?thesis
    by (auto simp add: StateAsync_set_def Let_def split: option.splits sum.splits prod.splits if_splits)
qed

lemma delete_keeps_proto:
  "StateAsync_delete k this w = Inr (b, this', w') \<Longrightarrow>
   proto (currentState this') = proto (currentState this)"
  by (auto simp add: StateAsync_delete_def delete_key_def Let_def
      split: option.splits sum.splits prod.splits)




section \<open>Reads\<close>

text \<open>
  Claim C4 (authoritative storage reads): if a binding is attached and its \<^verbatim>\<open>get(k)\<close>
  resolves, \<^verbatim>\<open>get(k)\<close> returns what it resolved to, with \<^verbatim>\<open>null\<close>, the binding's "not
  found", read as absent; the in-memory mapping is not read: whatever it holds, \<open>m\<close>,
  the result is the same, so a "not found" from storage yields absent even when the key
  is present in memory.
\<close>

theorem C4_storage_read_is_authoritative:
  assumes bound: "storage this = Some sb"
    and resolves: "storage_get sb k w = (Inr r, w1)"
  shows "StateAsync_get k this w = Inr (if r = JNull then JUndefined else r, this, w1)
         \<and> StateAsync_get k (this\<lparr>currentState := m\<rparr>) w =
             Inr (if r = JNull then JUndefined else r, this\<lparr>currentState := m\<rparr>, w1)"
proof -
  have b: "storage (this\<lparr>currentState := m\<rparr>) = Some sb" using bound by simp
  have "nullish_undefined r = (if r = JNull then JUndefined else r)"
    by (cases r) (simp_all add: nullish_undefined_def)
  with get_resolved [OF b resolves] get_resolved [OF bound resolves] show ?thesis by simp
qed

theorem C4_storage_read_is_authoritative_witness:
  "storage minimal_store = Some minimal_storage
   \<and> storage_get minimal_storage ''k'' world0 = (Inr JNull, world0)
   \<and> own (currentState minimal_store) ''k'' = Some (JNum 0)
   \<and> StateAsync_get ''k'' minimal_store world0 = Inr (JUndefined, minimal_store, world0)
   \<and> StateAsync_get ''k''
        (minimal_store\<lparr>currentState := object_literal [''k'' \<mapsto> JStr ''cached'']\<rparr>) world0
       = Inr (JUndefined,
              minimal_store\<lparr>currentState := object_literal [''k'' \<mapsto> JStr ''cached'']\<rparr>, world0)"
proof -
  have h1: "storage minimal_store = Some minimal_storage"
    by (simp add: minimal_store_def StateAsync_create_def example_config_def)
  have h2: "storage_get minimal_storage ''k'' world0 = (Inr JNull, world0)"
    by (simp add: minimal_storage_def map_storage_def world0_def)
  have h3: "own (currentState minimal_store) ''k'' = Some (JNum 0)"
    by (simp add: minimal_store_def StateAsync_create_def example_config_def object_literal_def)
  from C4_storage_read_is_authoritative
         [OF h1 h2, of "object_literal [''k'' \<mapsto> JStr ''cached'']"] h1 h2 h3
  show ?thesis by simp
qed

text \<open>
  Claim C9 (null normalization on the storage path): if the binding's \<^verbatim>\<open>get(k)\<close>
  resolves to \<^verbatim>\<open>null\<close>, \<^verbatim>\<open>get(k)\<close> returns \<^verbatim>\<open>undefined\<close>, whereas the memory path (no
  binding, or the fallback after a throw) returns a stored \<^verbatim>\<open>null\<close> unchanged.
\<close>

theorem C9_null_from_storage_reads_as_undefined:
  "(storage this = Some sb \<and> storage_get sb k w = (Inr JNull, w1) \<longrightarrow>
      StateAsync_get k this w = Inr (JUndefined, this, w1))
   \<and> (storage that = None \<and> own (currentState that) k = Some JNull \<longrightarrow>
      StateAsync_get k that w = Inr (JNull, that, w))
   \<and> (storage this = Some sb \<and> isl (fst (storage_get sb k w2))
        \<and> own (currentState this) k = Some JNull \<longrightarrow>
      (\<exists>w'. StateAsync_get k this w2 = Inr (JNull, this, w')))"
proof -
  have a: "StateAsync_get k this w = Inr (JUndefined, this, w1)"
    if "storage this = Some sb" "storage_get sb k w = (Inr JNull, w1)"
    using get_resolved [OF that] by (simp add: nullish_undefined_def)
  have b: "StateAsync_get k that w = Inr (JNull, that, w)"
    if "storage that = None" "own (currentState that) k = Some JNull"
    using get_unbound [OF that(1), of k w] read_key_own [OF that(2)] by simp
  have c: "\<exists>w'. StateAsync_get k this w2 = Inr (JNull, this, w')"
    if h: "storage this = Some sb" "isl (fst (storage_get sb k w2))"
      "own (currentState this) k = Some JNull"
  proof -
    from thrown [OF h(2)] obtain e w3 where "storage_get sb k w2 = (Inl e, w3)" by blast
    from get_rejected [OF h(1) this] read_key_own [OF h(3)] show ?thesis by simp
  qed
  from a b c show ?thesis by blast
qed

theorem C9_null_from_storage_reads_as_undefined_witness:
  "storage stored_store = Some map_storage
   \<and> storage_get map_storage ''k'' (world0\<lparr>ext := \<lparr>backing = [''k'' \<mapsto> JNull], received = []\<rparr>\<rparr>)
       = (Inr JNull, world0\<lparr>ext := \<lparr>backing = [''k'' \<mapsto> JNull], received = []\<rparr>\<rparr>)
   \<and> StateAsync_get ''k'' stored_store (world0\<lparr>ext := \<lparr>backing = [''k'' \<mapsto> JNull], received = []\<rparr>\<rparr>)
       = Inr (JUndefined, stored_store, world0\<lparr>ext := \<lparr>backing = [''k'' \<mapsto> JNull], received = []\<rparr>\<rparr>)
   \<and> storage memory_store = None \<and> own (currentState memory_store) ''k'' = Some JNull
   \<and> StateAsync_get ''k'' memory_store world0 = Inr (JNull, memory_store, world0)
   \<and> storage (memory_store\<lparr>storage := Some failing_storage\<rparr>) = Some failing_storage
   \<and> isl (fst (storage_get failing_storage ''k'' world0))
   \<and> (\<exists>w'. StateAsync_get ''k'' (memory_store\<lparr>storage := Some failing_storage\<rparr>) world0
              = Inr (JNull, memory_store\<lparr>storage := Some failing_storage\<rparr>, w'))"
proof -
  let ?w = "world0\<lparr>ext := \<lparr>backing = [''k'' \<mapsto> JNull], received = []\<rparr>\<rparr>"
  let ?t = "memory_store\<lparr>storage := Some failing_storage\<rparr>"
  have h1: "storage stored_store = Some map_storage"
    by (simp add: stored_store_def StateAsync_create_def example_config_def)
  have h2: "storage_get map_storage ''k'' ?w = (Inr JNull, ?w)"
    by (simp add: map_storage_def)
  have h3: "storage memory_store = None" "own (currentState memory_store) ''k'' = Some JNull"
    by (simp_all add: memory_store_def StateAsync_create_def example_config_def object_literal_def)
  have h4: "storage ?t = Some failing_storage" "own (currentState ?t) ''k'' = Some JNull"
    using h3 by simp_all
  have h5: "isl (fst (storage_get failing_storage ''k'' world0))"
    by (simp add: failing_storage_def)
  from C9_null_from_storage_reads_as_undefined
         [of stored_store map_storage "''k''" ?w ?w memory_store world0]
       C9_null_from_storage_reads_as_undefined
         [of ?t failing_storage "''k''" _ _ _ world0]
       h1 h2 h3 h4 h5
  show ?thesis by blast
qed

section \<open>Deleting\<close>




section \<open>Failures of the binding\<close>

text \<open>
  Claim C6 (no storage error reaches the caller): for every key and value, and for every
  binding any of whose operations throw, \<^verbatim>\<open>get\<close>, \<^verbatim>\<open>set\<close>, \<^verbatim>\<open>has\<close>, \<^verbatim>\<open>delete\<close> and
  \<^verbatim>\<open>clear\<close> all resolve without throwing, degrading to the memory-only behaviour; an
  absent \<^verbatim>\<open>exists\<close> or \<^verbatim>\<open>clear\<close> is a fallback to memory, not an error.

  \<^verbatim>\<open>get\<close>, \<^verbatim>\<open>set\<close>, \<^verbatim>\<open>has\<close> and \<^verbatim>\<open>delete\<close> do resolve on every store (\<open>get_total\<close>,
  \<open>set_total\<close>, \<open>has_total\<close>, \<open>delete_total\<close>), with the result of the memory-only store
  when the binding throws (\<open>get_rejected\<close>, \<open>set_rejected\<close>, \<open>has_rejected\<close>,
  \<open>delete_rejected\<close>) or has no \<^verbatim>\<open>exists\<close> (\<open>has_no_exists\<close>). \<^verbatim>\<open>clear\<close> does not: no
  error of the binding escapes its \<^verbatim>\<open>try\<close>, but "always clear memory" is the assignment
  \<^verbatim>\<open>this.props.currentState = {}\<close> to a member of the frozen \<^verbatim>\<open>props\<close>, where the other
  operations change the memory object in place. The promise rejects with a
  \<^verbatim>\<open>TypeError\<close> and the memory keeps its keys: without a binding; after a binding's
  \<^verbatim>\<open>clear\<close> that throws, with the warning logged; and after one that succeeds, with the
  backend emptied.
\<close>

theorem C6_clear_rejects:
  "StateAsync_clear memory_store world0
     = Inl (assign_props_member ''currentState'', memory_store, world0)
   \<and> own (currentState memory_store) ''k'' = Some JNull
   \<and> StateAsync_clear degraded_store world0
     = Inl (assign_props_member ''currentState'', degraded_store,
            \<lparr>console = [(''[state-example] Storage clear failed:'', Error ''Storage clear always fails'')],
             ext = \<lparr>backing = Map.empty, received = []\<rparr>\<rparr>)
   \<and> own (currentState degraded_store) ''k'' = Some (JNum 0)
   \<and> StateAsync_clear (stored_store\<lparr>currentState := object_literal [''k'' \<mapsto> JNum 1]\<rparr>)
        \<lparr>console = [], ext = \<lparr>backing = [''k'' \<mapsto> JNum 1], received = []\<rparr>\<rparr>
     = Inl (assign_props_member ''currentState'',
            stored_store\<lparr>currentState := object_literal [''k'' \<mapsto> JNum 1]\<rparr>,
            \<lparr>console = [], ext = \<lparr>backing = Map.empty, received = []\<rparr>\<rparr>)
   \<and> assign_props_member ''currentState''
     = TypeError (''Cannot assign to read only property '' @ [CHR 39] @ ''currentState'' @ [CHR 39]
                  @ '' of object '' @ [CHR 39] @ ''#<Object>'' @ [CHR 39])"
  by (simp add: StateAsync_clear_def example_defs console_warn_def assign_props_member_def)

section \<open>Change events\<close>





text \<open>
  With the flag on, \<^verbatim>\<open>set\<close> does what it does with the flag off and then calls the
  handlers of \<^verbatim>\<open>"<key>.changed"\<close>, in order, with the value the memory held before.
\<close>

lemma set_emits_when_enabled:
  assumes "emitEvents this" and "eventHandlers this (changed_event k) = Some hs"
    and "StateAsync_set k v ttl (this\<lparr>emitEvents := False\<rparr>) w = Inr (t, w1)"
  shows "StateAsync_set k v ttl this w =
           Inr (t\<lparr>emitEvents := True\<rparr>,
                call_handlers hs (change_payload (read_key (currentState this) k) v) w1)"
  using assms
  by (auto simp add: StateAsync_set_def Let_def emit_def split: option.splits sum.splits prod.splits)

text \<open>
  Two writes of a key that the memory neither has nor inherits, on a store without a
  binding (the same holds when the binding's \<^verbatim>\<open>set\<close> throws): the one subscriber is
  called with \<^verbatim>\<open>{oldValue: undefined, newValue: v1}\<close> and then with
  \<^verbatim>\<open>{oldValue: v1, newValue: v2}\<close> when the flag is on, and is not called when it is
  off.
\<close>

lemma set_twice_memory_only:
  assumes "storage this = None" and "emitEvents this"
    and "eventHandlers this (changed_event k) = Some [h]"
    and "find_property (currentState this) k = None"
  shows "perform_all [Set k v1 ttl1, Set k v2 ttl2] this w =
           Inr (this\<lparr>currentState := (currentState this)\<lparr>own := (own (currentState this))(k \<mapsto> v2)\<rparr>\<rparr>,
                h (change_payload v1 v2) (h (change_payload JUndefined v1) w))"
proof -
  from assms(4) have absent: "own (currentState this) k = None"
    and inh: "inherited (proto (currentState this)) k = None"
    by (auto simp add: find_property_def split: option.splits)
  have a1: "assign_key (currentState this) k v1
              = (currentState this)\<lparr>own := (own (currentState this))(k \<mapsto> v1)\<rparr>"
    using absent inh by (simp add: assign_key_def)
  have a2: "assign_key ((currentState this)\<lparr>own := (own (currentState this))(k \<mapsto> v1)\<rparr>) k v2
              = (currentState this)\<lparr>own := (own (currentState this))(k \<mapsto> v2)\<rparr>"
    by (simp add: assign_key_def)
  have r1: "read_key (currentState this) k = JUndefined"
    using assms(4) by (simp add: read_key_def)
  have r2: "read_key ((currentState this)\<lparr>own := (own (currentState this))(k \<mapsto> v1)\<rparr>) k = v1"
    by (simp add: read_key_own)
  from assms(1,2,3) a1 a2 r1 r2 show ?thesis
    by (simp add: StateAsync_set_def emit_def)
qed

lemma set_twice_disabled:
  assumes "storage this = None" and "\<not> emitEvents this"
  shows "\<exists>this'. perform_all [Set k v1 ttl1, Set k v2 ttl2] this w = Inr (this', w)"
  using assms by (simp add: StateAsync_set_def)


text \<open>
  Claim C7 (change-event sequencing): \<^verbatim>\<open>set(k, v1)\<close> then \<^verbatim>\<open>set(k, v2)\<close> on a store
  with a subscriber on \<^verbatim>\<open>"k.changed"\<close> calls the handler exactly twice, with
  \<^verbatim>\<open>{oldValue: undefined, newValue: v1}\<close> then \<^verbatim>\<open>{oldValue: v1, newValue: v2}\<close>, \<open>oldValue\<close>
  being read from memory before the write, if \<^verbatim>\<open>emitEvents\<close> is enabled, and zero times
  if it is disabled.

  This is what happens on a store that writes its memory (\<open>set_twice_memory_only\<close>,
  \<open>set_twice_disabled\<close>). On a store over a working backend the first write is stored
  and not mirrored into memory, so the second event reads \<^verbatim>\<open>undefined\<close> from memory
  again: the recording subscriber has received
  \<^verbatim>\<open>{oldValue: undefined, newValue: 1}\<close> and \<^verbatim>\<open>{oldValue: undefined, newValue: 2}\<close>.
\<close>

theorem C7_stored_write_reports_stale_old_value:
  "perform_all [Set ''k'' (JNum 1) None, Set ''k'' (JNum 2) None] observed_store world0
     = Inr (observed_store,
            \<lparr>console = [],
             ext = \<lparr>backing = [''k'' \<mapsto> JNum 2],
                    received = [JObj [(''oldValue'', JUndefined), (''newValue'', JNum 1)],
                                JObj [(''oldValue'', JUndefined), (''newValue'', JNum 2)]]\<rparr>\<rparr>)
   \<and> emitEvents observed_store
   \<and> eventHandlers observed_store ''k.changed'' = Some [recorder]"
  by (simp add: StateAsync_set_def example_defs on_event_def emit_def changed_event_def
      change_payload_def read_key_def find_property_def Object_prototype_def
      Object_prototype_member_def Object_prototype_keys_def)



section \<open>Teaching\<close>


end
